theory Spec2Isabelle
  imports Main "HOL-Library.AList"
begin

section \<open>Python values shared by both modules\<close>

text \<open>
  Python dictionaries keep insertion order, and the error messages of the registry print
  \<open>list(d.keys())\<close>, so a dictionary is an association list with distinct keys:
  \<open>d[k] = v\<close> is \<open>AList.update k v d\<close> (the value is replaced in place when the key
  exists, the pair is appended otherwise), \<open>d.get(k)\<close> is \<open>map_of d k\<close> and
  \<open>list(d.keys())\<close> is \<open>map fst d\<close>.

  Exceptions are values of \<open>error\<close>. The two registry exceptions carry the values their
  f-string messages interpolate: the name looked up (and the feature type), and the list of
  keys printed after "Available stattests:" or "Available feature types:".
  \<open>TypeError\<close> and \<open>AttributeError\<close> are raised by the interpreter and the libraries, not
  by the two modules; their messages are not modelled.
\<close>

datatype error =
    ValueError string
  | StatTestNotFoundError string "string list"
  | StatTestInvalidFeatureTypeError string string "string list"
  | KeyError string
  | TypeError
  | AttributeError

section \<open>The StatTest registry: \<open>analyzers/stattests/registry.py\<close>\<close>

text \<open>
  A hashable callable: its identity (what the reverse dictionary hashes and compares) and
  its \<open>__name__\<close>, when it has one. A function has one; a \<open>functools.partial\<close> object or
  an instance of a class with \<open>__call__\<close> has none, and reading the attribute raises
  \<open>AttributeError\<close>. The \<open>func\<close> of a \<open>StatTest\<close> is such a callable.
\<close>

datatype pyfunc = PyFunc (func_id: nat) (dunder_name: "string option")

record stat_test =
  name :: string
  display_name :: string
  func :: pyfunc
  allowed_feature_types :: "string list"

text \<open>
  \<open>PossibleStatTestType\<close> with \<open>Optional\<close> around it, plus what the last \<open>else\<close> of
  \<open>get_stattest\<close> receives: an object that is neither \<open>None\<close>, a \<open>StatTest\<close>, a callable
  nor a \<open>str\<close>; \<open>OtherSel\<close> carries the text of \<open>type(stattest_func)\<close>. A callable
  that cannot be hashed (its class sets \<open>__hash__\<close> to \<open>None\<close>) is \<open>UnhashableCallableSel\<close>:
  the test \<open>stattest_func not in _registered_stat_test_funcs\<close> raises \<open>TypeError\<close> on it.
\<close>

datatype selector =
    NoneSel
  | StatTestSel stat_test
  | CallableSel pyfunc
  | UnhashableCallableSel
  | StrSel string
  | OtherSel string

text \<open>The module globals \<open>_registered_stat_tests\<close> and \<open>_registered_stat_test_funcs\<close>.\<close>

record registry =
  registered_stat_tests :: "(string \<times> (string \<times> stat_test) list) list"
  registered_stat_test_funcs :: "(pyfunc \<times> string) list"

definition empty_registry :: registry where
  "empty_registry = \<lparr>registered_stat_tests = [], registered_stat_test_funcs = []\<rparr>"

text \<open>The dictionary comprehension \<open>{ft: stat_test for ft in stat_test.allowed_feature_types}\<close>.\<close>

definition feature_type_dict :: "stat_test \<Rightarrow> (string \<times> stat_test) list" where
  "feature_type_dict stat_test =
     fold (\<lambda>ft d. AList.update ft stat_test d) (allowed_feature_types stat_test) []"

definition register_stattest :: "stat_test \<Rightarrow> registry \<Rightarrow> registry" where
  "register_stattest stat_test reg =
     \<lparr>registered_stat_tests =
        AList.update (name stat_test) (feature_type_dict stat_test) (registered_stat_tests reg),
      registered_stat_test_funcs =
        AList.update (func stat_test) (name stat_test) (registered_stat_test_funcs reg)\<rparr>"

text \<open>A sequence of registration calls, first element first.\<close>

fun register_all :: "stat_test list \<Rightarrow> registry \<Rightarrow> registry" where
  "register_all [] reg = reg"
| "register_all (t # ts) reg = register_all ts (register_stattest t reg)"

text \<open>
  The three tests \<open>_get_default_stattest\<close> reads from the package \<open>stattests\<close>, whose
  definitions are outside this module: they are a parameter.
\<close>

record stattests =
  ks_stat_test :: stat_test
  chi_stat_test :: stat_test
  z_stat_test :: stat_test

text \<open>
  A series is the list of the objects its iteration yields, each as \<open>set()\<close> treats it.
  A Python set keeps one of two objects when they are the same object or compare equal:
  \<^item> \<open>Label a\<close> is a hashable value other than NaN; two of them are one element when
    their values are equal;
  \<^item> \<open>NaN i\<close> is the NaN object of identity \<open>i\<close>: NaN compares unequal to everything,
    itself included, so two NaN cells are one element only when they hold the same object.
    Iterating a \<open>float64\<close> series makes a new \<open>float\<close> for every cell, so the NaN cells
    of such series, reference and current together, have pairwise different identities;
    the cells of an \<open>object\<close> series may share one NaN object;
  \<^item> \<open>Unhashable\<close> is an object that cannot be hashed (a list, a dict): \<open>set()\<close> raises
    \<open>TypeError\<close> on a series that holds one.
  Equality of this type is then the equivalence the set uses.
\<close>

datatype 'a label = Label 'a | NaN nat | Unhashable

definition get_default_stattest ::
  "stattests \<Rightarrow> 'a label list \<Rightarrow> 'a label list \<Rightarrow> string \<Rightarrow> error + stat_test" where
  "get_default_stattest stattests reference_data current_data feature_type =
     (if feature_type = ''num'' then Inr (ks_stat_test stattests)
      else if feature_type = ''cat'' then
        (if Unhashable \<in> set reference_data then Inl TypeError
         else if Unhashable \<in> set current_data then Inl TypeError
         else
           (let labels = set reference_data \<union> set current_data
            in Inr (if card labels > 2 then chi_stat_test stattests else z_stat_test stattests)))
      else Inl (ValueError (''Unexpected feature_type '' @ feature_type)))"

text \<open>
  The tail of \<open>get_stattest\<close>, reached once \<open>stattest_name\<close> is bound: the two
  \<open>.get\<close> lookups and the exception each raises when it returns \<open>None\<close>.
\<close>

definition lookup_stattest_name :: "registry \<Rightarrow> string \<Rightarrow> string \<Rightarrow> error + stat_test" where
  "lookup_stattest_name reg stattest_name feature_type =
     (case map_of (registered_stat_tests reg) stattest_name of
        None \<Rightarrow>
          Inl (StatTestNotFoundError stattest_name (map fst (registered_stat_tests reg)))
      | Some funcs \<Rightarrow>
          (case map_of funcs feature_type of
             None \<Rightarrow>
               Inl (StatTestInvalidFeatureTypeError stattest_name feature_type (map fst funcs))
           | Some func' \<Rightarrow> Inr func'))"

text \<open>
  The branches of \<open>get_stattest\<close> in the order of the source; the selector kinds are
  disjoint (a \<open>StatTest\<close> and a \<open>str\<close> are not callable), so one equation per kind.
  For a callable the membership test of the first \<open>if\<close> hashes it, and the wrapping reads
  its \<open>__name__\<close>.
\<close>

fun get_stattest ::
  "stattests \<Rightarrow> registry \<Rightarrow> 'a label list \<Rightarrow> 'a label list \<Rightarrow> string \<Rightarrow> selector
     \<Rightarrow> error + stat_test" where
  "get_stattest stattests reg reference_data current_data feature_type NoneSel =
     get_default_stattest stattests reference_data current_data feature_type"
| "get_stattest stattests reg reference_data current_data feature_type (StatTestSel stattest_func) =
     Inr stattest_func"
| "get_stattest stattests reg reference_data current_data feature_type (CallableSel stattest_func) =
     (case map_of (registered_stat_test_funcs reg) stattest_func of
        None \<Rightarrow>
          (case dunder_name stattest_func of
             None \<Rightarrow> Inl AttributeError
           | Some dunder_name' \<Rightarrow>
               Inr \<lparr>name = [],
                    display_name = ''custom function '' @ [CHR 0x27] @ dunder_name' @ [CHR 0x27],
                    func = stattest_func,
                    allowed_feature_types = []\<rparr>)
      | Some stattest_name \<Rightarrow> lookup_stattest_name reg stattest_name feature_type)"
| "get_stattest stattests reg reference_data current_data feature_type UnhashableCallableSel =
     Inl TypeError"
| "get_stattest stattests reg reference_data current_data feature_type (StrSel stattest_func) =
     lookup_stattest_name reg stattest_func feature_type"
| "get_stattest stattests reg reference_data current_data feature_type (OtherSel ty) =
     Inl (ValueError (''Unexpected type of stattest argument ('' @ ty
                      @ ''), expected: str or Callable''))"

text \<open>
  Two views of the forward dictionary used to state properties of it: the entry under a
  (name, feature type) pair, as the two \<open>.get\<close> calls of \<open>get_stattest\<close> read it, and the
  list of all tests it stores.
\<close>

definition forward_entry :: "registry \<Rightarrow> string \<Rightarrow> string \<Rightarrow> stat_test option" where
  "forward_entry reg stattest_name feature_type =
     (case map_of (registered_stat_tests reg) stattest_name of
        None \<Rightarrow> None
      | Some funcs \<Rightarrow> map_of funcs feature_type)"

definition stored_tests :: "registry \<Rightarrow> stat_test list" where
  "stored_tests reg = concat (map (\<lambda>(n, funcs). map snd funcs) (registered_stat_tests reg))"

section \<open>The trigger-word feature: \<open>features/trigger_words_present_feature.py\<close>\<close>

text \<open>
  A string is the list of its UTF-8 bytes. Every byte of a character outside ASCII is
  at least 128, so the substitution below deletes such a character whole, as the regular
  expression does on code points.
\<close>

definition in_range :: "char \<Rightarrow> char \<Rightarrow> char \<Rightarrow> bool" where
  "in_range lo hi c = ((of_char lo :: nat) \<le> of_char c \<and> (of_char c :: nat) \<le> of_char hi)"

text \<open>The character class \<open>[A-Za-z0-9 ]\<close>.\<close>

definition kept_char :: "char \<Rightarrow> bool" where
  "kept_char c =
     (in_range CHR ''A'' CHR ''Z'' c \<or> in_range CHR ''a'' CHR ''z'' c
      \<or> in_range CHR ''0'' CHR ''9'' c \<or> c = CHR '' '')"

text \<open>\<open>re.sub("[^A-Za-z0-9 ]+", "", s)\<close>: every run of characters outside the class is deleted.\<close>

definition re_sub_strip :: "string \<Rightarrow> string" where
  "re_sub_strip s = filter kept_char s"

text \<open>
  \<open>str.split()\<close> with no argument: the maximal runs of characters that are not whitespace,
  none of them empty. Whitespace, among ASCII characters, is 9 to 13 and 28 to 32.
\<close>

definition isspace :: "char \<Rightarrow> bool" where
  "isspace c = (let n = (of_char c :: nat) in (9 \<le> n \<and> n \<le> 13) \<or> (28 \<le> n \<and> n \<le> 32))"

fun split_from :: "string \<Rightarrow> string \<Rightarrow> string list" where
  "split_from cur [] = (if cur = [] then [] else [cur])"
| "split_from cur (c # cs) =
     (if isspace c then (if cur = [] then split_from [] cs else cur # split_from [] cs)
      else split_from (cur @ [c]) cs)"

definition split :: "string \<Rightarrow> string list" where
  "split s = split_from [] s"

text \<open>\<open>str.lower()\<close>, on the ASCII letters and digits a token is made of.\<close>

definition char_lower :: "char \<Rightarrow> char" where
  "char_lower c = (if in_range CHR ''A'' CHR ''Z'' c then char_of (of_char c + (32 :: nat)) else c)"

definition lower :: "string \<Rightarrow> string" where
  "lower s = map char_lower s"

text \<open>
  The feature object. \<open>lem\<close> stands for \<open>self.lem.lemmatize\<close>, the method of the NLTK
  lemmatizer the constructor creates: a parameter. \<open>words_list\<close> is a tuple, list or set of
  strings; \<open>in\<close> tests membership.
\<close>

record trigger_words_present =
  lem :: "string \<Rightarrow> string"
  column_name :: string
  words_list :: "string list"
  lemmatisize :: bool

text \<open>The \<open>for\<close> loop of \<open>listed_words_present\<close> over the tokens left to visit.\<close>

fun words_loop :: "trigger_words_present \<Rightarrow> string list \<Rightarrow> bool \<Rightarrow> string list \<Rightarrow> int" where
  "words_loop self words_list' lemmatisize' [] = 0"
| "words_loop self words_list' lemmatisize' (word0 # words) =
     (let word = lower word0;
          word = (if lemmatisize' then lem self word else word)
      in if word \<in> set words_list' then 1
         else words_loop self words_list' lemmatisize' words)"

text \<open>
  A cell of the column, as \<open>apply\<close> passes it to the function: \<open>None\<close>, a string, NaN
  (the \<open>float\<close> pandas puts where a value is missing) or any other object. Only \<open>None\<close>
  is caught by the guard \<open>s is None\<close>; on an object that is not a string \<open>re.sub\<close>
  raises \<open>TypeError\<close>.
\<close>

datatype cell = NoneCell | StrCell string | NaNCell | OtherCell

definition listed_words_present ::
  "trigger_words_present \<Rightarrow> cell \<Rightarrow> string list \<Rightarrow> bool \<Rightarrow> error + int" where
  "listed_words_present self s words_list' lemmatisize' =
     (case s of
        NoneCell \<Rightarrow> Inr 0
      | StrCell s' \<Rightarrow> Inr (words_loop self words_list' lemmatisize' (split (re_sub_strip s')))
      | _ \<Rightarrow> Inl TypeError)"

text \<open>
  \<open>Series.apply\<close>: the function is called on the cells in order, and the first exception
  it raises ends the call.
\<close>

fun series_apply :: "('a \<Rightarrow> error + 'b) \<Rightarrow> 'a list \<Rightarrow> error + 'b list" where
  "series_apply f [] = Inr []"
| "series_apply f (x # xs) =
     (case f x of
        Inl e \<Rightarrow> Inl e
      | Inr y \<Rightarrow> (case series_apply f xs of Inl e \<Rightarrow> Inl e | Inr ys \<Rightarrow> Inr (y # ys)))"

text \<open>
  A data frame is the association list of its columns, each the list of its cells, its
  column names distinct; \<open>data[c]\<close> raises \<open>KeyError\<close> when there is no column \<open>c\<close>.
  \<open>data_definition\<close> is not read.
\<close>

definition generate_feature ::
  "trigger_words_present \<Rightarrow> (string \<times> cell list) list \<Rightarrow> 'd
     \<Rightarrow> error + (string \<times> int list) list" where
  "generate_feature self data data_definition =
     (case map_of data (column_name self) of
        None \<Rightarrow> Inl (KeyError (column_name self))
      | Some column \<Rightarrow>
          (case series_apply
                  (\<lambda>x. listed_words_present self x (words_list self) (lemmatisize self)) column of
             Inl e \<Rightarrow> Inl e
           | Inr feature \<Rightarrow> Inr [(column_name self, feature)]))"

text \<open>The cells the function handles: \<open>None\<close> and strings.\<close>

fun is_text_cell :: "cell \<Rightarrow> bool" where
  "is_text_cell NoneCell = True"
| "is_text_cell (StrCell s) = True"
| "is_text_cell c = False"

section \<open>Predicates on registry states and concrete inputs\<close>

text \<open>
  The name the selector stands for, when it stands for one: the two branches of
  \<open>get_stattest\<close> that bind \<open>stattest_name\<close>.
\<close>

definition selector_name :: "registry \<Rightarrow> selector \<Rightarrow> string option" where
  "selector_name reg stattest_func =
     (case stattest_func of
        CallableSel f \<Rightarrow> map_of (registered_stat_test_funcs reg) f
      | StrSel s \<Rightarrow> Some s
      | _ \<Rightarrow> None)"

text \<open>Which of its two exceptions the name lookup raised.\<close>

definition is_not_found :: "error + stat_test \<Rightarrow> bool" where
  "is_not_found r = (case r of Inl (StatTestNotFoundError _ _) \<Rightarrow> True | _ \<Rightarrow> False)"

definition is_invalid_feature_type :: "error + stat_test \<Rightarrow> bool" where
  "is_invalid_feature_type r =
     (case r of Inl (StatTestInvalidFeatureTypeError _ _ _) \<Rightarrow> True | _ \<Rightarrow> False)"

text \<open>
  The reverse index is right for a registry state when the \<open>func\<close> of every stored test
  is mapped to the name of that test.
\<close>

definition reverse_index_ok :: "registry \<Rightarrow> bool" where
  "reverse_index_ok reg \<longleftrightarrow>
     (\<forall>T \<in> set (stored_tests reg).
        map_of (registered_stat_test_funcs reg) (func T) = Some (name T))"


text \<open>
  What registration establishes for the forward dictionary: its keys are distinct, and the
  dictionary under a name is the one built from the test it stores, which carries that name.
\<close>

definition forward_wf :: "registry \<Rightarrow> bool" where
  "forward_wf reg \<longleftrightarrow> distinct (map fst (registered_stat_tests reg)) \<and>
     (\<forall>(n, funcs) \<in> set (registered_stat_tests reg).
        \<forall>(ft, T) \<in> set funcs. name T = n \<and> funcs = feature_type_dict T)"

text \<open>
  The elements of the label set by kind: the values of the hashable cells and the
  identities of the NaN objects.
\<close>

fun label_values :: "'a label list \<Rightarrow> 'a list" where
  "label_values [] = []"
| "label_values (Label a # cells) = a # label_values cells"
| "label_values (c # cells) = label_values cells"

fun nan_objects :: "'a label list \<Rightarrow> nat list" where
  "nan_objects [] = []"
| "nan_objects (NaN i # cells) = i # nan_objects cells"
| "nan_objects (c # cells) = nan_objects cells"

text \<open>
  The labels of a series as the column shows them, after the words "distinct labels" of the
  default policy: the value of a cell, every missing cell being the one label \<open>None\<close>.
\<close>

fun shown_label :: "'a label \<Rightarrow> 'a option" where
  "shown_label (Label a) = Some a"
| "shown_label c = None"

text \<open>Tests used as concrete inputs.\<close>

definition ex_ks :: stat_test where
  "ex_ks = \<lparr>name = ''ks'', display_name = ''K-S p_value'', func = PyFunc 1 (Some ''_ks_stat_test''),
            allowed_feature_types = [''num'']\<rparr>"

definition ex_chi :: stat_test where
  "ex_chi = \<lparr>name = ''chisquare'', display_name = ''chi-square p_value'',
             func = PyFunc 2 (Some ''_chi_stat_test''), allowed_feature_types = [''cat'']\<rparr>"

definition ex_z :: stat_test where
  "ex_z = \<lparr>name = ''z'', display_name = ''Z-test p_value'', func = PyFunc 3 (Some ''_z_stat_test''),
           allowed_feature_types = [''cat'']\<rparr>"

definition ex_stattests :: stattests where
  "ex_stattests = \<lparr>ks_stat_test = ex_ks, chi_stat_test = ex_chi, z_stat_test = ex_z\<rparr>"

definition ex_both :: stat_test where
  "ex_both = \<lparr>name = ''z'', display_name = ''first z'', func = PyFunc 4 (Some ''first_z''),
              allowed_feature_types = [''num'', ''cat'']\<rparr>"

definition ex_alias :: stat_test where
  "ex_alias = \<lparr>name = ''ks2'', display_name = ''K-S again'', func = PyFunc 1 (Some ''_ks_stat_test''),
               allowed_feature_types = [''num'']\<rparr>"

text \<open>\<open>functools.partial(f)\<close> for a test function \<open>f\<close>: a callable without a \<open>__name__\<close>.\<close>

definition ex_partial :: pyfunc where
  "ex_partial = PyFunc 9 None"

definition ex_untyped :: stat_test where
  "ex_untyped = \<lparr>name = ''nothing'', display_name = ''no types'', func = PyFunc 5 (Some ''nothing''),
                 allowed_feature_types = []\<rparr>"

text \<open>Feature objects used as concrete inputs; the first lemmatizes "running" only.\<close>

definition ex_feature :: trigger_words_present where
  "ex_feature = \<lparr>lem = (\<lambda>w. if w = ''running'' then ''run'' else w), column_name = ''text'',
                 words_list = [''run''], lemmatisize = True\<rparr>"

definition ex_capital :: trigger_words_present where
  "ex_capital = \<lparr>lem = (\<lambda>w. w), column_name = ''text'', words_list = [''Run''],
                 lemmatisize = False\<rparr>"

section \<open>Dictionaries built by registration\<close>

lemma map_of_fold_update:
  "map_of (fold (\<lambda>ft d. AList.update ft v d) fts d0) k =
     (if k \<in> set fts then Some v else map_of d0 k)"
  by (induction fts arbitrary: d0) (auto simp: update_conv')

lemma map_of_feature_type_dict:
  "map_of (feature_type_dict T) ft = (if ft \<in> set (allowed_feature_types T) then Some T else None)"
  by (simp add: feature_type_dict_def map_of_fold_update)

lemma distinct_fold_update:
  "distinct (map fst d0) \<Longrightarrow> distinct (map fst (fold (\<lambda>ft d. AList.update ft v d) fts d0))"
  by (induction fts arbitrary: d0) (auto simp: distinct_update)

lemma distinct_feature_type_dict: "distinct (map fst (feature_type_dict T))"
  by (simp add: feature_type_dict_def distinct_fold_update)

lemma keys_fold_update:
  "fst ` set (fold (\<lambda>ft d. AList.update ft v d) fts d0) = set fts \<union> fst ` set d0"
  by (induction fts arbitrary: d0) (auto simp: dom_update)

lemma keys_feature_type_dict:
  "set (map fst (feature_type_dict T)) = set (allowed_feature_types T)"
  by (simp add: feature_type_dict_def keys_fold_update)

lemma set_update_subset: "set (AList.update k v al) \<subseteq> insert (k, v) (set al)"
  by (induction al) auto

lemma values_fold_update:
  "snd ` set (fold (\<lambda>ft d. AList.update ft v d) fts d0) \<subseteq> insert v (snd ` set d0)"
proof (induction fts arbitrary: d0)
  case Nil
  then show ?case by auto
next
  case (Cons ft fts)
  have "snd ` set (AList.update ft v d0) \<subseteq> insert v (snd ` set d0)"
    using set_update_subset [of ft v d0] by force
  with Cons [of "AList.update ft v d0"] show ?case by auto
qed

lemma values_feature_type_dict: "snd ` set (feature_type_dict T) \<subseteq> {T}"
  using values_fold_update [of T "allowed_feature_types T" "[]"]
  by (simp add: feature_type_dict_def)

lemma forward_register:
  "map_of (registered_stat_tests (register_stattest T reg)) n =
     (if n = name T then Some (feature_type_dict T) else map_of (registered_stat_tests reg) n)"
  by (simp add: register_stattest_def update_conv')


lemma forward_register_all_other:
  "n \<notin> name ` set ts \<Longrightarrow>
   map_of (registered_stat_tests (register_all ts reg)) n = map_of (registered_stat_tests reg) n"
  by (induction ts arbitrary: reg) (auto simp: forward_register)

lemma stored_tests_iff:
  "T \<in> set (stored_tests reg) \<longleftrightarrow>
     (\<exists>n funcs ft. (n, funcs) \<in> set (registered_stat_tests reg) \<and> (ft, T) \<in> set funcs)"
  by (force simp: stored_tests_def)




lemma forward_wf_empty: "forward_wf empty_registry"
  by (simp add: forward_wf_def empty_registry_def)

lemma forward_wf_register: "forward_wf reg \<Longrightarrow> forward_wf (register_stattest S reg)"
  unfolding forward_wf_def
proof (intro conjI ballI, goal_cases)
  case 1
  then show ?case by (simp add: register_stattest_def distinct_update)
next
  case (2 p)
  obtain n funcs where p: "p = (n, funcs)" by (cases p)
  from 2(2) p have "(n, funcs) = (name S, feature_type_dict S) \<or> (n, funcs) \<in> set (registered_stat_tests reg)"
    using set_update_subset [of "name S" "feature_type_dict S" "registered_stat_tests reg"]
    by (auto simp: register_stattest_def)
  then show ?case
  proof
    assume eq: "(n, funcs) = (name S, feature_type_dict S)"
    have "\<And>ft T. (ft, T) \<in> set (feature_type_dict S) \<Longrightarrow> T = S"
      using values_feature_type_dict [of S] by force
    with eq p show ?thesis by auto
  next
    assume "(n, funcs) \<in> set (registered_stat_tests reg)"
    with 2(1) p show ?thesis by auto
  qed
qed

lemma forward_wf_register_all: "forward_wf reg \<Longrightarrow> forward_wf (register_all ts reg)"
  by (induction ts arbitrary: reg) (auto simp: forward_wf_register)

lemma stored_lookup:
  assumes wf: "forward_wf reg" and T: "T \<in> set (stored_tests reg)"
    and t: "t \<in> set (allowed_feature_types T)"
  shows "lookup_stattest_name reg (name T) t = Inr T"
proof -
  from T obtain n funcs ft where
    nf: "(n, funcs) \<in> set (registered_stat_tests reg)" and ft: "(ft, T) \<in> set funcs"
    unfolding stored_tests_iff by blast
  from wf nf ft have n: "n = name T" and funcs: "funcs = feature_type_dict T"
    unfolding forward_wf_def by auto
  from wf nf have "map_of (registered_stat_tests reg) n = Some funcs"
    unfolding forward_wf_def by simp
  with n funcs t show ?thesis
    by (simp add: lookup_stattest_name_def map_of_feature_type_dict)
qed


lemma set_label_split:
  "Unhashable \<notin> set cells \<Longrightarrow>
   set cells = Label ` set (label_values cells) \<union> NaN ` set (nan_objects cells)"
proof (induction cells)
  case Nil
  then show ?case by simp
next
  case (Cons c cells)
  then show ?case by (cases c) auto
qed

lemma card_hashable_labels:
  fixes reference_data current_data :: "'a label list"
  assumes "Unhashable \<notin> set (reference_data @ current_data)"
  shows "card (set (reference_data @ current_data)) =
           card (set (label_values (reference_data @ current_data)))
             + card (set (nan_objects (reference_data @ current_data)))"
proof -
  let ?cells = "reference_data @ current_data"
  let ?L = "Label ` set (label_values ?cells)"
  let ?N = "NaN ` set (nan_objects ?cells) :: 'a label set"
  have "card (set ?cells) = card (?L \<union> ?N)"
    using set_label_split [OF assms] by simp
  also have "\<dots> = card ?L + card ?N"
    by (subst card_Un_disjoint) auto
  also have "\<dots> = card (set (label_values ?cells)) + card (set (nan_objects ?cells))"
    by (simp add: card_image inj_on_def)
  finally show ?thesis .
qed

lemma get_stattest_selector_name:
  "selector_name reg sel = Some n \<Longrightarrow>
   get_stattest stattests reg reference_data current_data feature_type sel =
     lookup_stattest_name reg n feature_type"
  by (cases sel) (auto simp: selector_name_def)

lemma map_of_None_keys: "map_of al k = None \<longleftrightarrow> k \<notin> set (map fst al)"
  by (simp add: map_of_eq_None_iff)

lemma reverse_index_ok_empty: "reverse_index_ok empty_registry"
  by (simp add: reverse_index_ok_def stored_tests_def empty_registry_def)

lemma feature_type_dict_no_types: "allowed_feature_types T = [] \<Longrightarrow> feature_type_dict T = []"
  by (simp add: feature_type_dict_def)

lemmas ex_defs = ex_ks_def ex_chi_def ex_z_def ex_stattests_def ex_both_def ex_alias_def ex_untyped_def
  empty_registry_def register_stattest_def feature_type_dict_def stored_tests_def

section \<open>Tokens and the loop over them\<close>

lemma words_loop_iff:
  "words_loop self wl lz ws =
     (if \<exists>w \<in> set ws. (if lz then lem self (lower w) else lower w) \<in> set wl then 1 else 0)"
  by (induction ws) (simp_all add: Let_def)

lemma words_loop_01: "words_loop self wl lz ws = 0 \<or> words_loop self wl lz ws = 1"
  by (simp add: words_loop_iff)

lemma listed_words_present_01:
  "is_text_cell s \<Longrightarrow>
   listed_words_present self s wl lz = Inr 0 \<or> listed_words_present self s wl lz = Inr 1"
  by (cases s) (simp_all add: listed_words_present_def words_loop_01)

lemma listed_words_present_not_text:
  "\<not> is_text_cell s \<Longrightarrow> listed_words_present self s wl lz = Inl TypeError"
  by (cases s) (simp_all add: listed_words_present_def)

lemma series_apply_all:
  "\<forall>x \<in> set xs. \<exists>y. f x = Inr y \<Longrightarrow>
   \<exists>ys. series_apply f xs = Inr ys \<and> length ys = length xs
        \<and> (\<forall>i < length xs. f (xs ! i) = Inr (ys ! i))"
proof (induction xs)
  case Nil
  then show ?case by simp
next
  case (Cons x xs)
  from Cons.prems obtain y where y: "f x = Inr y" by auto
  from Cons obtain ys where ys: "series_apply f xs = Inr ys" "length ys = length xs"
    "\<forall>i < length xs. f (xs ! i) = Inr (ys ! i)"
    by auto
  have "\<forall>i < length (x # xs). f ((x # xs) ! i) = Inr ((y # ys) ! i)"
  proof (intro allI impI)
    fix i assume "i < length (x # xs)"
    then show "f ((x # xs) ! i) = Inr ((y # ys) ! i)"
      using y ys(3) by (cases i) simp_all
  qed
  with y ys(1,2) show ?case by simp
qed

lemma series_apply_raises:
  "x \<in> set xs \<Longrightarrow> \<forall>x \<in> set xs. \<forall>e. f x = Inl e \<longrightarrow> e = TypeError \<Longrightarrow> f x = Inl TypeError \<Longrightarrow>
   series_apply f xs = Inl TypeError"
proof (induction xs)
  case Nil
  then show ?case by simp
next
  case (Cons a xs)
  show ?case
  proof (cases "f a")
    case (Inl e)
    with Cons.prems(2) have "e = TypeError" by simp
    with Inl show ?thesis by simp
  next
    case (Inr y)
    with Cons.prems(1,3) have "x \<in> set xs" by auto
    with Cons.IH Cons.prems(2,3) have "series_apply f xs = Inl TypeError" by simp
    with Inr show ?thesis by simp
  qed
qed

lemma concat_split_from:
  "concat (split_from cur s) = cur @ filter (\<lambda>c. \<not> isspace c) s"
  by (induction cur s rule: split_from.induct) simp_all


lemma split_from_tokens:
  "\<forall>c \<in> set cur. \<not> isspace c \<Longrightarrow> w \<in> set (split_from cur s) \<Longrightarrow>
   w \<noteq> [] \<and> (\<forall>c \<in> set w. \<not> isspace c) \<and> set w \<subseteq> set cur \<union> set s"
proof (induction cur s rule: split_from.induct)
  case (1 cur)
  from 1(2) have "cur \<noteq> []" and "w = cur" by (simp_all split: if_splits)
  with 1(1) show ?case by simp
next
  case (2 cur c cs)
  show ?case
  proof (cases "isspace c")
    case sp: True
    show ?thesis
    proof (cases "cur = []")
      case True
      with sp 2(4,5) have "w \<in> set (split_from [] cs)" by simp
      with 2(1) [OF sp True] have "w \<noteq> [] \<and> (\<forall>c \<in> set w. \<not> isspace c) \<and> set w \<subseteq> set [] \<union> set cs"
        by simp
      then show ?thesis by auto
    next
      case False
      with sp 2(5) have "w = cur \<or> w \<in> set (split_from [] cs)" by simp
      then show ?thesis
      proof
        assume "w = cur"
        with False 2(4) show ?thesis by auto
      next
        assume "w \<in> set (split_from [] cs)"
        with 2(2) [OF sp False] have "w \<noteq> [] \<and> (\<forall>c \<in> set w. \<not> isspace c) \<and> set w \<subseteq> set [] \<union> set cs"
          by simp
        then show ?thesis by auto
      qed
    qed
  next
    case nsp: False
    with 2(5) have w: "w \<in> set (split_from (cur @ [c]) cs)" by simp
    have "\<forall>c \<in> set (cur @ [c]). \<not> isspace c" using 2(4) nsp by simp
    from 2(3) [OF nsp this w] show ?thesis by auto
  qed
qed


lemma kept_char_isspace: "kept_char c \<Longrightarrow> isspace c \<longleftrightarrow> c = CHR '' ''"
proof (cases "c = CHR '' ''")
  case True
  then show ?thesis by (simp add: isspace_def)
next
  case False
  assume "kept_char c"
  with False have "(65 \<le> (of_char c :: nat) \<and> (of_char c :: nat) \<le> 90)
      \<or> (97 \<le> (of_char c :: nat) \<and> (of_char c :: nat) \<le> 122)
      \<or> (48 \<le> (of_char c :: nat) \<and> (of_char c :: nat) \<le> 57)"
    by (simp add: kept_char_def in_range_def)
  then have "\<not> isspace c"
    unfolding isspace_def Let_def by arith
  with False show ?thesis by simp
qed

lemma split_tokens:
  assumes w: "w \<in> set (split (filter kept_char s))"
  shows "w \<noteq> [] \<and> (\<forall>c \<in> set w. kept_char c \<and> c \<noteq> CHR '' '')"
proof -
  from split_from_tokens [of "[]" w "filter kept_char s"] w
  have ne: "w \<noteq> []" and ns: "\<forall>c \<in> set w. \<not> isspace c" and sub: "set w \<subseteq> set (filter kept_char s)"
    by (simp_all add: split_def)
  from sub have k: "\<forall>c \<in> set w. kept_char c" by auto
  with ns have "\<forall>c \<in> set w. c \<noteq> CHR '' ''" using kept_char_isspace by blast
  with ne k show ?thesis by blast
qed

lemma concat_split:
  "concat (split (filter kept_char s)) = filter (\<lambda>c. kept_char c \<and> c \<noteq> CHR '' '') s"
proof -
  have "concat (split (filter kept_char s)) = filter (\<lambda>c. \<not> isspace c) (filter kept_char s)"
    by (simp add: split_def concat_split_from)
  also have "\<dots> = filter (\<lambda>c. kept_char c \<and> \<not> isspace c) s"
    by (simp add: conj_commute)
  also have "\<dots> = filter (\<lambda>c. kept_char c \<and> c \<noteq> CHR '' '') s"
    by (rule filter_cong) (auto simp: kept_char_isspace)
  finally show ?thesis .
qed

section \<open>Properties of the registry\<close>

text \<open>
  C1, as stated: for every reference and current series, a "cat" feature with no selector
  gets the chi-squared test when the two series together have more than two distinct labels
  and the Z-test otherwise. Two inputs show otherwise. A \<open>float64\<close> reference column of 1.0
  and a missing value, against a current column of one missing value, shows two labels, 1.0
  and missing; the set the code builds has three elements, since each NaN cell is an
  object of its own, and the chi-squared test is returned. And on a column with a cell that
  cannot be hashed no test is returned: \<open>set()\<close> raises \<open>TypeError\<close>.
\<close>

theorem get_stattest_default_nan_counterexample:
  "card (shown_label ` (set [Label (1::int), NaN 0] \<union> set [NaN 1])) = 2
   \<and> get_stattest ex_stattests empty_registry [Label (1::int), NaN 0] [NaN 1] ''cat'' NoneSel
       = Inr ex_chi
   \<and> ex_chi \<noteq> ex_z
   \<and> get_stattest ex_stattests empty_registry [Label (1::int), Unhashable] [Label 1] ''cat'' NoneSel
       = Inl TypeError"
  by (simp add: get_default_stattest_def ex_stattests_def ex_chi_def ex_z_def card_insert_if)

text \<open>
  C1, amended. With no selector, \<open>get_stattest\<close> returns the Kolmogorov-Smirnov test for
  feature type "num" and raises \<open>ValueError\<close> for every feature type other than "num" and
  "cat". For "cat" it raises \<open>TypeError\<close> when a cell of either series cannot be hashed;
  otherwise it counts the distinct values of the hashable cells of both series plus the
  distinct NaN objects among their cells, and returns the chi-squared test when that count
  is more than 2 and the Z-test otherwise. On series without NaN and without unhashable
  cells the count is the number of distinct labels, as the claim has it.
\<close>

theorem get_stattest_default_policy:
  "get_stattest stattests reg reference_data current_data feature_type NoneSel =
     (if feature_type = ''num'' then Inr (ks_stat_test stattests)
      else if feature_type = ''cat'' then
        (if Unhashable \<in> set (reference_data @ current_data) then Inl TypeError
         else if card (set (label_values (reference_data @ current_data)))
                   + card (set (nan_objects (reference_data @ current_data))) > 2
         then Inr (chi_stat_test stattests) else Inr (z_stat_test stattests))
      else Inl (ValueError (''Unexpected feature_type '' @ feature_type)))
   \<and> get_stattest stattests reg (map Label xs) (map Label ys) ''cat'' NoneSel =
       (if card (set xs \<union> set ys) > 2
        then Inr (chi_stat_test stattests) else Inr (z_stat_test stattests))"
proof -
  have u: "Unhashable \<notin> set (map Label xs)" "Unhashable \<notin> set (map Label ys)"
    by auto
  have "set (map Label xs) \<union> set (map Label ys) = Label ` (set xs \<union> set ys)"
    by auto
  moreover have "card (Label ` (set xs \<union> set ys)) = card (set xs \<union> set ys)"
    by (rule card_image) (simp add: inj_on_def)
  ultimately have "card (set (map Label xs) \<union> set (map Label ys)) = card (set xs \<union> set ys)"
    by (simp only:)
  with u have 2: "get_stattest stattests reg (map Label xs) (map Label ys) ''cat'' NoneSel =
       (if card (set xs \<union> set ys) > 2
        then Inr (chi_stat_test stattests) else Inr (z_stat_test stattests))"
    by (simp add: get_default_stattest_def del: set_map)
  have 1: "get_stattest stattests reg reference_data current_data feature_type NoneSel =
     (if feature_type = ''num'' then Inr (ks_stat_test stattests)
      else if feature_type = ''cat'' then
        (if Unhashable \<in> set (reference_data @ current_data) then Inl TypeError
         else if card (set (label_values (reference_data @ current_data)))
                   + card (set (nan_objects (reference_data @ current_data))) > 2
         then Inr (chi_stat_test stattests) else Inr (z_stat_test stattests))
      else Inl (ValueError (''Unexpected feature_type '' @ feature_type)))"
  proof (cases "Unhashable \<in> set (reference_data @ current_data)")
    case True
    then show ?thesis by (auto simp: get_default_stattest_def)
  next
    case False
    from card_hashable_labels [OF False]
    have "card (set reference_data \<union> set current_data) =
            card (set (label_values (reference_data @ current_data)))
              + card (set (nan_objects (reference_data @ current_data)))"
      by simp
    with False show ?thesis by (simp add: get_default_stattest_def)
  qed
  from 1 2 show ?thesis by (rule conjI)
qed

text \<open>
  The policy on label sets of three and of two values, on "num" and on "text"; and on two
  \<open>float64\<close> columns with two missing cells.
\<close>

theorem get_stattest_default_policy_witness:
  "get_stattest ex_stattests empty_registry (map Label [''a'', ''b'']) (map Label [''a'', ''c''])
     ''cat'' NoneSel = Inr ex_chi
   \<and> get_stattest ex_stattests empty_registry (map Label [''a'', ''a'']) (map Label [''a'', ''b''])
       ''cat'' NoneSel = Inr ex_z
   \<and> get_stattest ex_stattests empty_registry [Label ''a'', Label ''a''] [Label ''a'', Label ''b'']
       ''num'' NoneSel = Inr ex_ks
   \<and> get_stattest ex_stattests empty_registry [Label ''a'', Label ''a''] [Label ''a'', Label ''b'']
       ''text'' NoneSel = Inl (ValueError ''Unexpected feature_type text'')
   \<and> get_stattest ex_stattests empty_registry [Label (1::int), NaN 0] [NaN 1] ''cat'' NoneSel
       = Inr ex_chi"
proof -
  have a: "get_stattest ex_stattests empty_registry (map Label [''a'', ''b''])
             (map Label [''a'', ''c'']) ''cat'' NoneSel = Inr ex_chi"
    using get_stattest_default_policy [of ex_stattests empty_registry "[]" "[]" "''cat''"
        "[''a'', ''b'']" "[''a'', ''c'']", THEN conjunct2]
    by (simp add: ex_stattests_def card_insert_if)
  have b: "get_stattest ex_stattests empty_registry (map Label [''a'', ''a''])
             (map Label [''a'', ''b'']) ''cat'' NoneSel = Inr ex_z"
    using get_stattest_default_policy [of ex_stattests empty_registry "[]" "[]" "''cat''"
        "[''a'', ''a'']" "[''a'', ''b'']", THEN conjunct2]
    by (simp add: ex_stattests_def card_insert_if)
  have c: "get_stattest ex_stattests empty_registry [Label ''a'', Label ''a''] [Label ''a'', Label ''b'']
             ''num'' NoneSel = Inr ex_ks"
    using get_stattest_default_policy [of ex_stattests empty_registry
        "[Label ''a'', Label ''a'']" "[Label ''a'', Label ''b'']" "''num''", THEN conjunct1]
    by (simp add: ex_stattests_def)
  have d: "get_stattest ex_stattests empty_registry [Label ''a'', Label ''a''] [Label ''a'', Label ''b'']
             ''text'' NoneSel = Inl (ValueError ''Unexpected feature_type text'')"
    using get_stattest_default_policy [of ex_stattests empty_registry
        "[Label ''a'', Label ''a'']" "[Label ''a'', Label ''b'']" "''text''", THEN conjunct1]
    by simp
  have e: "get_stattest ex_stattests empty_registry [Label (1::int), NaN 0] [NaN 1] ''cat'' NoneSel
             = Inr ex_chi"
    using get_stattest_default_policy [of ex_stattests empty_registry
        "[Label (1::int), NaN 0]" "[NaN 1]" "''cat''", THEN conjunct1]
    by (simp add: ex_stattests_def card_insert_if)
  from a b c d e show ?thesis by blast
qed

text \<open>
  C2. After any sequence of registrations, a test \<open>T\<close> that the forward dictionary
  stores is what \<open>get_stattest\<close> returns for the selector \<open>T.name\<close> and each feature type
  in \<open>T.allowed_feature_types\<close>.
\<close>

theorem get_stattest_registered_name:
  assumes "T \<in> set (stored_tests (register_all tests empty_registry))"
    and "t \<in> set (allowed_feature_types T)"
  shows "get_stattest stattests (register_all tests empty_registry) reference_data current_data t
           (StrSel (name T)) = Inr T"
  using stored_lookup [OF forward_wf_register_all [OF forward_wf_empty] assms] by simp

text \<open>
  Three registrations, the third under the name of the second: the third is stored and
  resolved.
\<close>

theorem get_stattest_registered_name_witness:
  "ex_z \<in> set (stored_tests (register_all [ex_ks, ex_both, ex_z] empty_registry))
   \<and> ''cat'' \<in> set (allowed_feature_types ex_z)
   \<and> get_stattest ex_stattests (register_all [ex_ks, ex_both, ex_z] empty_registry) [Label (1::int)] [Label 2] ''cat''
        (StrSel (name ex_z)) = Inr ex_z"
proof -
  have 1: "ex_z \<in> set (stored_tests (register_all [ex_ks, ex_both, ex_z] empty_registry))"
    by (simp add: ex_defs)
  have 2: "''cat'' \<in> set (allowed_feature_types ex_z)"
    by (simp add: ex_z_def)
  show ?thesis
    using 1 2 get_stattest_registered_name [OF 1 2, of ex_stattests "[Label (1::int)]" "[Label 2]"] by blast
qed

text \<open>
  C3. When the selector stands for a name (a string, or a callable the reverse dictionary
  knows), \<open>get_stattest\<close> raises \<open>StatTestNotFoundError\<close> exactly when the name is not a
  key of the forward dictionary, and the error lists all keys of that dictionary; it raises
  \<open>StatTestInvalidFeatureTypeError\<close> exactly when the name is a key and the feature type
  is not a key of the dictionary under it, and the error lists the keys of that dictionary.
  A selector of any other type raises a \<open>ValueError\<close> whose message holds the type.
\<close>

theorem get_stattest_errors:
  assumes "selector_name reg sel = Some n"
  shows "(is_not_found (get_stattest stattests reg reference_data current_data feature_type sel)
            \<longleftrightarrow> n \<notin> set (map fst (registered_stat_tests reg)))
       \<and> (n \<notin> set (map fst (registered_stat_tests reg)) \<longrightarrow>
            get_stattest stattests reg reference_data current_data feature_type sel
              = Inl (StatTestNotFoundError n (map fst (registered_stat_tests reg))))
       \<and> (is_invalid_feature_type (get_stattest stattests reg reference_data current_data feature_type sel)
            \<longleftrightarrow> (\<exists>funcs. map_of (registered_stat_tests reg) n = Some funcs
                         \<and> feature_type \<notin> set (map fst funcs)))
       \<and> (\<forall>funcs. map_of (registered_stat_tests reg) n = Some funcs
                   \<and> feature_type \<notin> set (map fst funcs) \<longrightarrow>
            get_stattest stattests reg reference_data current_data feature_type sel
              = Inl (StatTestInvalidFeatureTypeError n feature_type (map fst funcs)))
       \<and> get_stattest stattests reg reference_data current_data feature_type (OtherSel ty)
            = Inl (ValueError (''Unexpected type of stattest argument ('' @ ty
                               @ ''), expected: str or Callable''))"
proof -
  let ?r = "get_stattest stattests reg reference_data current_data feature_type sel"
  have r: "?r = lookup_stattest_name reg n feature_type"
    using assms by (rule get_stattest_selector_name)
  show ?thesis
  proof (cases "map_of (registered_stat_tests reg) n")
    case None
    then have "n \<notin> set (map fst (registered_stat_tests reg))"
      by (simp add: map_of_None_keys)
    with None r show ?thesis
      by (simp add: lookup_stattest_name_def is_not_found_def is_invalid_feature_type_def)
  next
    case (Some funcs)
    then have n: "n \<in> set (map fst (registered_stat_tests reg))"
      using map_of_None_keys [of "registered_stat_tests reg" n] by simp
    show ?thesis
    proof (cases "map_of funcs feature_type")
      case None
      then have "feature_type \<notin> set (map fst funcs)"
        by (simp add: map_of_None_keys)
      with None Some r n show ?thesis
        by (simp add: lookup_stattest_name_def is_not_found_def is_invalid_feature_type_def)
    next
      case (Some T)
      then have "feature_type \<in> set (map fst funcs)"
        using map_of_None_keys [of funcs feature_type] by simp
      with Some \<open>map_of (registered_stat_tests reg) n = Some funcs\<close> r n show ?thesis
        by (simp add: lookup_stattest_name_def is_not_found_def is_invalid_feature_type_def)
    qed
  qed
qed

text \<open>
  The function of the Kolmogorov-Smirnov test, registered for "num" only, as selector for a
  "cat" column.
\<close>

theorem get_stattest_errors_witness:
  "selector_name (register_all [ex_ks, ex_z] empty_registry) (CallableSel (PyFunc 1 (Some ''_ks_stat_test'')))
     = Some ''ks''
   \<and> get_stattest ex_stattests (register_all [ex_ks, ex_z] empty_registry) [Label (1::int)] [Label 2] ''cat''
        (CallableSel (PyFunc 1 (Some ''_ks_stat_test'')))
      = Inl (StatTestInvalidFeatureTypeError ''ks'' ''cat'' [''num''])
   \<and> \<not> is_not_found (get_stattest ex_stattests (register_all [ex_ks, ex_z] empty_registry) [Label (1::int)] [Label 2]
        ''cat'' (CallableSel (PyFunc 1 (Some ''_ks_stat_test''))))"
proof -
  let ?reg = "register_all [ex_ks, ex_z] empty_registry"
  let ?r = "get_stattest ex_stattests ?reg [Label (1::int)] [Label 2] ''cat'' (CallableSel (PyFunc 1 (Some ''_ks_stat_test'')))"
  have 1: "selector_name ?reg (CallableSel (PyFunc 1 (Some ''_ks_stat_test''))) = Some ''ks''"
    by (simp add: selector_name_def ex_defs)
  have 2: "map_of (registered_stat_tests ?reg) ''ks'' = Some [(''num'', ex_ks)]"
    by (simp add: ex_defs)
  have 3: "''ks'' \<in> set (map fst (registered_stat_tests ?reg))"
    by (simp add: ex_defs)
  have 4: "''cat'' \<notin> set (map fst [(''num'', ex_ks)])"
    by simp
  note th = get_stattest_errors [OF 1, of ex_stattests "[Label (1::int)]" "[Label 2]" "''cat''"]
  from th 2 4 have "?r = Inl (StatTestInvalidFeatureTypeError ''ks'' ''cat'' (map fst [(''num'', ex_ks)]))"
    by blast
  then have 5: "?r = Inl (StatTestInvalidFeatureTypeError ''ks'' ''cat'' [''num''])"
    by simp
  from th 3 have 6: "\<not> is_not_found ?r"
    by blast
  from 1 5 6 show ?thesis by blast
qed

text \<open>
  C4, as stated: every callable that is not a key of the reverse dictionary is wrapped and
  returned, and no exception is raised. A \<open>functools.partial\<close> object is callable and has no
  \<open>__name__\<close>: building the display name raises \<open>AttributeError\<close>. A callable that cannot
  be hashed does not get that far: the lookup in the reverse dictionary raises \<open>TypeError\<close>.
\<close>

theorem get_stattest_adhoc_callable_counterexample:
  "ex_partial \<notin> set (map fst (registered_stat_test_funcs (register_all [ex_ks, ex_z] empty_registry)))
   \<and> get_stattest ex_stattests (register_all [ex_ks, ex_z] empty_registry)
        [Label (1::int)] [Label 2] ''num'' (CallableSel ex_partial) = Inl AttributeError
   \<and> get_stattest ex_stattests (register_all [ex_ks, ex_z] empty_registry)
        [Label (1::int)] [Label 2] ''num'' UnhashableCallableSel = Inl TypeError"
  by (simp add: ex_partial_def ex_defs)

text \<open>
  C4, amended. A hashable callable that has a \<open>__name__\<close> and is not a key of the reverse
  dictionary is wrapped, whatever the feature type: the result has the empty name, the
  display name \<open>custom function '<__name__>'\<close>, the callable as \<open>func\<close> and no allowed
  feature types, and no exception is raised.
\<close>

theorem get_stattest_adhoc_callable:
  assumes "f \<notin> set (map fst (registered_stat_test_funcs reg))"
    and "dunder_name f = Some n"
  shows "get_stattest stattests reg reference_data current_data feature_type (CallableSel f) =
           Inr \<lparr>name = '''',
                display_name = ''custom function '' @ [CHR 0x27] @ n @ [CHR 0x27],
                func = f,
                allowed_feature_types = []\<rparr>"
  using assms by (simp add: map_of_None_keys [symmetric] del: set_map)

text \<open>An unregistered function on a column of a feature type no test knows.\<close>

theorem get_stattest_adhoc_callable_witness:
  "PyFunc 7 (Some ''my_test'') \<notin> set (map fst (registered_stat_test_funcs (register_all [ex_ks, ex_z] empty_registry)))
   \<and> get_stattest ex_stattests (register_all [ex_ks, ex_z] empty_registry) [Label (1::int)] [Label 2] ''text''
        (CallableSel (PyFunc 7 (Some ''my_test'')))
      = Inr \<lparr>name = '''', display_name = ''custom function '' @ [CHR 0x27] @ ''my_test'' @ [CHR 0x27],
             func = PyFunc 7 (Some ''my_test''), allowed_feature_types = []\<rparr>"
proof -
  have 1: "PyFunc 7 (Some ''my_test'') \<notin> set (map fst (registered_stat_test_funcs (register_all [ex_ks, ex_z] empty_registry)))"
    by (simp add: ex_defs)
  have 2: "dunder_name (PyFunc 7 (Some ''my_test'')) = Some ''my_test''"
    by simp
  show ?thesis
    using 1 get_stattest_adhoc_callable [OF 1 2, of ex_stattests "[Label (1::int)]" "[Label 2]" "''text''"]
    by simp
qed

text \<open>
  C5, as stated: registering a test leaves the entry of a feature type that an earlier test
  of the same name had, and the new test does not list, as it was. It does not: the
  assignment replaces the whole dictionary under the name. A test for "num" and "cat" is
  registered as "z", then a test for "cat" only under the same name; the entry of
  ("z", "num") is gone.
\<close>

theorem register_stattest_drops_unlisted_counterexample:
  "forward_entry (register_stattest ex_both empty_registry) ''z'' ''num'' = Some ex_both
   \<and> name ex_z = ''z''
   \<and> ''num'' \<notin> set (allowed_feature_types ex_z)
   \<and> forward_entry (register_stattest ex_z (register_stattest ex_both empty_registry)) ''z'' ''num'' = None"
  by (simp add: forward_entry_def ex_defs)

text \<open>
  C5, amended. \<open>register_stattest\<close> replaces the dictionary under the name of the test:
  afterwards the entry of (\<open>test.name\<close>, \<open>t\<close>) is the test for each \<open>t\<close> it allows and
  absent for every other \<open>t\<close>, and the entries under every other name are unchanged.
\<close>

theorem register_stattest_forward_entry:
  "forward_entry (register_stattest T reg) n ft =
     (if n = name T then (if ft \<in> set (allowed_feature_types T) then Some T else None)
      else forward_entry reg n ft)"
  by (simp add: forward_entry_def forward_register map_of_feature_type_dict)

text \<open>The three cases of the equation after three registrations.\<close>

theorem register_stattest_forward_entry_witness:
  "forward_entry (register_stattest ex_z (register_stattest ex_both (register_stattest ex_ks empty_registry))) ''z'' ''cat'' = Some ex_z
   \<and> forward_entry (register_stattest ex_z (register_stattest ex_both (register_stattest ex_ks empty_registry))) ''z'' ''num'' = None
   \<and> forward_entry (register_stattest ex_z (register_stattest ex_both (register_stattest ex_ks empty_registry))) ''ks'' ''num'' = Some ex_ks"
  using register_stattest_forward_entry [of ex_z "register_stattest ex_both (register_stattest ex_ks empty_registry)" "''z''" "''cat''"]
   register_stattest_forward_entry [of ex_z "register_stattest ex_both (register_stattest ex_ks empty_registry)" "''z''" "''num''"]
   register_stattest_forward_entry [of ex_z "register_stattest ex_both (register_stattest ex_ks empty_registry)" "''ks''" "''num''"]
   register_stattest_forward_entry [of ex_both "register_stattest ex_ks empty_registry" "''ks''" "''num''"]
   register_stattest_forward_entry [of ex_ks "empty_registry" "''ks''" "''num''"]
  by (simp add: ex_ks_def ex_z_def ex_both_def)




text \<open>
  C10. A test registered with no allowed feature types still gets its name into the forward
  dictionary, with an empty dictionary under it; from then on, and until a registration
  under the same name, resolving that name raises \<open>StatTestInvalidFeatureTypeError\<close> with
  an empty list of feature types, for every feature type, and so never
  \<open>StatTestNotFoundError\<close>.
\<close>

theorem register_no_feature_types:
  assumes "allowed_feature_types T = []" and "name T \<notin> set (map name later)"
  shows "map_of (registered_stat_tests (register_all later (register_stattest T reg))) (name T) = Some []
       \<and> get_stattest stattests (register_all later (register_stattest T reg))
            reference_data current_data feature_type (StrSel (name T))
          = Inl (StatTestInvalidFeatureTypeError (name T) feature_type [])"
proof -
  have "map_of (registered_stat_tests (register_all later (register_stattest T reg))) (name T)
          = map_of (registered_stat_tests (register_stattest T reg)) (name T)"
    using assms(2) by (simp add: forward_register_all_other)
  also have "\<dots> = Some []"
    using assms(1) by (simp add: forward_register feature_type_dict_no_types)
  finally show ?thesis
    by (simp add: lookup_stattest_name_def)
qed

text \<open>A test without feature types between two registrations of other tests.\<close>

theorem register_no_feature_types_witness:
  "allowed_feature_types ex_untyped = [] \<and> name ex_untyped \<notin> set (map name [ex_z])
   \<and> name ex_untyped = ''nothing''
   \<and> get_stattest ex_stattests (register_all [ex_z] (register_stattest ex_untyped (register_stattest ex_ks empty_registry)))
        [Label (1::int)] [Label 2] ''num'' (StrSel ''nothing'')
      = Inl (StatTestInvalidFeatureTypeError ''nothing'' ''num'' [])"
proof -
  have 1: "allowed_feature_types ex_untyped = []" by (simp add: ex_untyped_def)
  have 2: "name ex_untyped \<notin> set (map name [ex_z])" by (simp add: ex_untyped_def ex_z_def)
  have 3: "name ex_untyped = ''nothing''" by (simp add: ex_untyped_def)
  show ?thesis
    using 1 2 3 register_no_feature_types [OF 1 2, of "register_stattest ex_ks empty_registry" ex_stattests "[Label (1::int)]" "[Label 2]" "''num''"]
    by simp
qed

section \<open>Properties of the trigger-word feature\<close>

text \<open>
  On \<open>None\<close> and on strings \<open>listed_words_present\<close> does what is written of it. It
  yields 0 for \<open>None\<close>. For a string it deletes every character outside \<open>[A-Za-z0-9 ]\<close>
  and splits the rest at whitespace: the tokens are not empty, consist of letters and
  digits, and together are the letters and digits of the string in order. It yields 1 when
  some token, lowercased and (when \<open>lemmatisize\<close> is set) lemmatized, is in \<open>words_list\<close>,
  the loop returning at the first such token, and 0 when none is; so it yields 0 for the
  empty string.
\<close>

theorem listed_words_present_compute:
  "listed_words_present self NoneCell wl lz = Inr 0
   \<and> listed_words_present self (StrCell s) wl lz =
       Inr (if \<exists>w \<in> set (split (filter kept_char s)).
                 (if lz then lem self (lower w) else lower w) \<in> set wl
            then 1 else 0)
   \<and> (\<forall>w \<in> set (split (filter kept_char s)).
          w \<noteq> [] \<and> (\<forall>c \<in> set w. kept_char c \<and> c \<noteq> CHR '' ''))
   \<and> concat (split (filter kept_char s)) = filter (\<lambda>c. kept_char c \<and> c \<noteq> CHR '' '') s
   \<and> listed_words_present self (StrCell []) wl lz = Inr 0"
proof -
  have 1: "listed_words_present self NoneCell wl lz = Inr 0"
    by (simp add: listed_words_present_def)
  have 2: "listed_words_present self (StrCell s) wl lz =
       Inr (if \<exists>w \<in> set (split (filter kept_char s)).
                 (if lz then lem self (lower w) else lower w) \<in> set wl
            then 1 else 0)"
    by (simp only: listed_words_present_def cell.case re_sub_strip_def words_loop_iff)
  have 3: "\<forall>w \<in> set (split (filter kept_char s)).
          w \<noteq> [] \<and> (\<forall>c \<in> set w. kept_char c \<and> c \<noteq> CHR '' '')"
    using split_tokens by blast
  have 4: "listed_words_present self (StrCell []) wl lz = Inr 0"
    by (simp add: listed_words_present_def re_sub_strip_def split_def)
  from 1 2 3 concat_split 4 show ?thesis by blast
qed

text \<open>"Running FAST!!" against the word "run", with and without lemmatization.\<close>

theorem listed_words_present_compute_example:
  "split (filter kept_char ''Running FAST!!'') = [''Running'', ''FAST'']
   \<and> listed_words_present ex_feature (StrCell ''Running FAST!!'') [''run''] True = Inr 1
   \<and> listed_words_present ex_feature (StrCell ''Running FAST!!'') [''run''] False = Inr 0"
proof -
  have t: "split (filter kept_char ''Running FAST!!'') = [''Running'', ''FAST'']"
    by code_simp
  have l: "lower ''Running'' = ''running''" "lower ''FAST'' = ''fast''"
    by code_simp+
  have m: "lem ex_feature ''running'' = ''run''" "lem ex_feature ''fast'' = ''fast''"
    by (simp_all add: ex_feature_def)
  have a: "listed_words_present ex_feature (StrCell ''Running FAST!!'') [''run''] True =
      Inr (if \<exists>w \<in> set [''Running'', ''FAST''].
            (if True then lem ex_feature (lower w) else lower w) \<in> set [''run''] then 1 else 0)"
    using listed_words_present_compute [of ex_feature "[''run'']" True "''Running FAST!!''",
        THEN conjunct2, THEN conjunct1]
    unfolding t .
  have b: "listed_words_present ex_feature (StrCell ''Running FAST!!'') [''run''] False =
      Inr (if \<exists>w \<in> set [''Running'', ''FAST''].
            (if False then lem ex_feature (lower w) else lower w) \<in> set [''run''] then 1 else 0)"
    using listed_words_present_compute [of ex_feature "[''run'']" False "''Running FAST!!''",
        THEN conjunct2, THEN conjunct1]
    unfolding t .
  have a': "listed_words_present ex_feature (StrCell ''Running FAST!!'') [''run''] True = Inr 1"
    unfolding a by (simp add: l m)
  have b': "listed_words_present ex_feature (StrCell ''Running FAST!!'') [''run''] False = Inr 0"
    unfolding b by (simp add: l)
  from t a' b' show ?thesis by blast
qed

text \<open>
  C7. The claim is that the computation yields 0 for every absent or null cell. The source
  guards with \<open>s is None\<close>, which is how it yields 0 for \<open>None\<close>; NaN, the value pandas
  holds in a missing cell, is not \<open>None\<close>, passes the guard and reaches \<open>re.sub\<close>, which
  raises \<open>TypeError\<close>. On a NaN cell the code yields no value, whatever the configuration.
\<close>

theorem listed_words_present_nan_raises:
  "listed_words_present self NaNCell wl lz = Inl TypeError
   \<and> listed_words_present self NaNCell wl lz \<noteq> Inr 0
   \<and> listed_words_present self NoneCell wl lz = Inr 0"
  by (simp add: listed_words_present_def)

text \<open>
  C8, as stated: the result is 1 for every entry \<open>w\<close> of \<open>words_list\<close> and every text
  that contains \<open>w\<close> in any letter casing, whatever the casing of the entries. It is not:
  only the tokens are lowercased, the entries are compared as they are written. With the
  entry "Run" the texts "Run", "we run" and "RUN" all yield 0.
\<close>

theorem listed_words_present_capital_counterexample:
  "''Run'' \<in> set (words_list ex_capital)
   \<and> listed_words_present ex_capital (StrCell ''Run'') (words_list ex_capital) (lemmatisize ex_capital)
       = Inr 0
   \<and> listed_words_present ex_capital (StrCell ''we run'') (words_list ex_capital) (lemmatisize ex_capital)
       = Inr 0
   \<and> listed_words_present ex_capital (StrCell ''RUN'') (words_list ex_capital) True = Inr 0"
  by code_simp

text \<open>
  C8, amended. Each token is lowercased, and lemmatized when \<open>lemmatisize\<close> is set, and
  the result is compared with the entries of \<open>words_list\<close> as they are written: for every
  entry \<open>w\<close> and every text with a token whose lowercased (and lemmatized) form is \<open>w\<close>,
  whatever the casing of the token in the text, the result is 1.
\<close>

theorem listed_words_present_match:
  assumes "w \<in> set wl" and "t \<in> set (split (re_sub_strip s))"
    and "(if lz then lem self (lower t) else lower t) = w"
  shows "listed_words_present self (StrCell s) wl lz = Inr 1"
proof -
  have "\<exists>v \<in> set (split (re_sub_strip s)). (if lz then lem self (lower v) else lower v) \<in> set wl"
    using assms by blast
  then show ?thesis
    by (simp only: listed_words_present_def cell.case words_loop_iff if_True)
qed

text \<open>The token "RUNNING" of a text, against the entry "run" with lemmatization.\<close>

theorem listed_words_present_match_witness:
  "''run'' \<in> set (words_list ex_feature)
   \<and> ''RUNNING'' \<in> set (split (re_sub_strip ''Stop RUNNING, now!''))
   \<and> lem ex_feature (lower ''RUNNING'') = ''run''
   \<and> listed_words_present ex_feature (StrCell ''Stop RUNNING, now!'') (words_list ex_feature) True
       = Inr 1"
proof -
  have 1: "''run'' \<in> set (words_list ex_feature)"
    by (simp add: ex_feature_def)
  have 2: "''RUNNING'' \<in> set (split (re_sub_strip ''Stop RUNNING, now!''))"
    by code_simp
  have l: "lower ''RUNNING'' = ''running''"
    by code_simp
  have 3: "lem ex_feature (lower ''RUNNING'') = ''run''"
    unfolding l by (simp add: ex_feature_def)
  have 4: "(if True then lem ex_feature (lower ''RUNNING'') else lower ''RUNNING'') = ''run''"
    using 3 by simp
  from 1 2 3 listed_words_present_match [OF 1 2 4] show ?thesis by blast
qed

text \<open>
  On a column whose cells are all \<open>None\<close> or strings, \<open>generate_feature\<close> returns a frame
  of exactly one column, named \<open>column_name\<close>, as long as the input column; its value in
  each row is \<open>listed_words_present\<close> of the cell of that row alone, and is 0 or 1. The
  input frame is a value and is not changed.
\<close>

theorem generate_feature_column:
  assumes "map_of data (column_name self) = Some column"
    and "\<forall>c \<in> set column. is_text_cell c"
  shows "\<exists>out. generate_feature self data data_definition = Inr [(column_name self, out)]
           \<and> length out = length column
           \<and> (\<forall>i < length column.
                 listed_words_present self (column ! i) (words_list self) (lemmatisize self)
                   = Inr (out ! i))
           \<and> (\<forall>v \<in> set out. v = 0 \<or> v = 1)"
proof -
  let ?f = "\<lambda>x. listed_words_present self x (words_list self) (lemmatisize self)"
  have "\<forall>c \<in> set column. \<exists>y. ?f c = Inr y"
    using assms(2) listed_words_present_01 by blast
  from series_apply_all [OF this] obtain out where
    out: "series_apply ?f column = Inr out" "length out = length column"
      "\<forall>i < length column. ?f (column ! i) = Inr (out ! i)"
    by blast
  have g: "generate_feature self data data_definition = Inr [(column_name self, out)]"
    using assms(1) out(1) by (simp add: generate_feature_def)
  have "\<forall>v \<in> set out. v = 0 \<or> v = 1"
  proof
    fix v assume "v \<in> set out"
    then obtain i where i: "i < length out" "out ! i = v"
      by (auto simp: in_set_conv_nth)
    with out(2,3) have v: "?f (column ! i) = Inr v" by simp
    from i(1) out(2) assms(2) have "is_text_cell (column ! i)" by simp
    from listed_words_present_01 [OF this, of self "words_list self" "lemmatisize self"] v
    show "v = 0 \<or> v = 1" by auto
  qed
  with g out(2,3) show ?thesis by blast
qed

text \<open>
  A cell of the column that is neither \<open>None\<close> nor a string makes the call raise
  \<open>TypeError\<close>, wherever it stands in the column.
\<close>

theorem generate_feature_not_text:
  assumes "map_of data (column_name self) = Some column"
    and "c \<in> set column" and "\<not> is_text_cell c"
  shows "generate_feature self data data_definition = Inl TypeError"
proof -
  let ?f = "\<lambda>x. listed_words_present self x (words_list self) (lemmatisize self)"
  have "\<forall>x \<in> set column. \<forall>e. ?f x = Inl e \<longrightarrow> e = TypeError"
  proof (intro ballI allI impI)
    fix x e assume "?f x = Inl e"
    then show "e = TypeError"
      by (cases x) (simp_all add: listed_words_present_def)
  qed
  moreover have "?f c = Inl TypeError"
    using assms(3) by (rule listed_words_present_not_text)
  ultimately have "series_apply ?f column = Inl TypeError"
    using assms(2) series_apply_raises [of c column ?f] by blast
  with assms(1) show ?thesis by (simp add: generate_feature_def)
qed

text \<open>A frame of three columns and three rows; only "text" is read.\<close>

theorem generate_feature_column_example:
  "generate_feature ex_feature
        [(''id'', [StrCell ''7'', StrCell ''8'', StrCell ''9'']),
         (''text'', [StrCell ''I was Running'', NoneCell, StrCell ''walk'']),
         (''text2'', [StrCell ''run'', NoneCell, NaNCell])] ()
      = Inr [(''text'', [1, 0, 0])]"
  by code_simp

text \<open>
  C9. The claim is that for every table with the configured column \<open>generate_feature\<close>
  returns one column of 0 and 1, as long as the input. A column with a missing cell, which
  pandas holds as NaN, is such a table; there the call raises \<open>TypeError\<close> and returns no
  table: the guard of \<open>listed_words_present\<close> lets NaN through, as for C7.
\<close>

theorem generate_feature_nan_raises:
  "map_of [(''id'', [StrCell ''7'', StrCell ''8'']), (''text'', [StrCell ''I was Running'', NaNCell])]
     (column_name ex_feature) = Some [StrCell ''I was Running'', NaNCell]
   \<and> generate_feature ex_feature
        [(''id'', [StrCell ''7'', StrCell ''8'']), (''text'', [StrCell ''I was Running'', NaNCell])] ()
      = Inl TypeError"
  by (simp add: generate_feature_def listed_words_present_def ex_feature_def)

end
